theory Spec2Isabelle
  imports Main "HOL-Library.Sublist"
begin

section \<open>Python string operations used by etlModule.py\<close>

text \<open>
  Strings are \<open>char list\<close>. The characters that cannot be written inside a string
  literal get names.
\<close>

abbreviation dq :: char where "dq \<equiv> CHR 0x22"
abbreviation sq :: char where "sq \<equiv> CHR 0x27"
abbreviation nl :: char where "nl \<equiv> CHR 0x0A"
abbreviation tab :: char where "tab \<equiv> CHR 0x09"
abbreviation cr :: char where "cr \<equiv> CHR 0x0D"
abbreviation bslash :: char where "bslash \<equiv> CHR 0x5C"

text \<open>\<open>s.startswith(p)\<close> and \<open>s.endswith(p)\<close>.\<close>

definition startswith :: "string \<Rightarrow> string \<Rightarrow> bool" where
  "startswith s p = (take (length p) s = p)"

definition endswith :: "string \<Rightarrow> string \<Rightarrow> bool" where
  "endswith s p = (length p \<le> length s \<and> drop (length s - length p) s = p)"

text \<open>\<open>sub in s\<close> for two strings: the substring test.\<close>

fun contains :: "string \<Rightarrow> string \<Rightarrow> bool" where
  "contains sub [] = (sub = [])"
| "contains sub (c # cs) = (startswith (c # cs) sub \<or> contains sub cs)"

text \<open>\<open>s.strip(chars)\<close>: every leading and every trailing character of \<open>chars\<close> goes.\<close>

definition strip_chars :: "string \<Rightarrow> string \<Rightarrow> string" where
  "strip_chars cs s =
     rev (dropWhile (\<lambda>c. c \<in> set cs) (rev (dropWhile (\<lambda>c. c \<in> set cs) s)))"

text \<open>\<open>s.strip()\<close>: the ASCII white space of \<open>str.isspace\<close>.\<close>

definition whitespace :: string where
  "whitespace = [CHR 0x20, CHR 0x09, CHR 0x0A, CHR 0x0B, CHR 0x0C, CHR 0x0D,
                 CHR 0x1C, CHR 0x1D, CHR 0x1E, CHR 0x1F]"

definition strip :: "string \<Rightarrow> string" where
  "strip s = strip_chars whitespace s"

text \<open>
  \<open>s.split(sep)\<close> for a non-empty separator: \<open>k\<close> counts the characters of a separator
  that was just recognised and is still to be skipped.
\<close>

fun split_aux :: "string \<Rightarrow> nat \<Rightarrow> string \<Rightarrow> string list" where
  "split_aux sep k [] = [[]]"
| "split_aux sep k (c # cs) =
     (if 0 < k then split_aux sep (k - 1) cs
      else if startswith (c # cs) sep then [] # split_aux sep (length sep - 1) cs
      else (case split_aux sep 0 cs of
              [] \<Rightarrow> [[c]]
            | h # t \<Rightarrow> (c # h) # t))"

definition split :: "string \<Rightarrow> string \<Rightarrow> string list" where
  "split s sep = split_aux sep 0 s"

text \<open>\<open>sep.join(xs)\<close>.\<close>

fun join :: "string \<Rightarrow> string list \<Rightarrow> string" where
  "join sep [] = []"
| "join sep [x] = x"
| "join sep (x # y # ys) = x @ sep @ join sep (y # ys)"

text \<open>
  \<open>os.path.splitext(p)\<close> (genericpath.\_splitext): the extension starts at the last dot of
  the last path component, unless that component has only dots before it. \<open>seps\<close> are the
  platform's separator characters (\<open>/\<close>, and on Windows also the backslash).
\<close>

definition splitext :: "string \<Rightarrow> string \<Rightarrow> string \<times> string" where
  "splitext seps p =
     (let name = rev (takeWhile (\<lambda>c. c \<notin> set seps) (rev p));
          dir = take (length p - length name) p;
          ext_r = takeWhile (\<lambda>c. c \<noteq> CHR ''.'') (rev name);
          stem = take (length name - length ext_r - 1) name
      in if CHR ''.'' \<in> set name \<and> list_ex (\<lambda>c. c \<noteq> CHR ''.'') stem
         then (dir @ stem, CHR ''.'' # rev ext_r)
         else (p, []))"

section \<open>Configuration, exceptions, the outside world\<close>

text \<open>
  The attributes \<open>ETLProcess.__init__\<close> reads from the configuration file and the
  parameter store (\<open>the_file_prefix\<close> is \<open>self.file_prefix\<close>, a reserved word here).
  \<open>drop_table_if_exists\<close> is assigned during a run and lives in the program state below.
\<close>

record config =
  db_type :: string
  dbServer :: string
  dbName :: string
  uid :: string
  pwd :: string
  field_delimiter :: string
  the_file_prefix :: string
  file_suffix :: string
  file_extensions :: string
  file_type :: string
  file_has_header :: bool
  archive_path :: string
  bcp_end_of_row :: string
  bcp_row_start :: string
  bcp_batch_commit_size :: string
  bcp_import_bool :: bool
  bulkInsert_import_bool :: bool
  pandas_import_bool :: bool

text \<open>
  Exceptions, each with the text \<open>str(e)\<close> gives. \<open>KeyError\<close> carries the \<open>repr\<close> of the
  missing key, \<open>UnboundLocalError\<close> the name of the local variable that is read before
  any assignment (its text is worded as CPython 3.11 words it). \<open>PyodbcError\<close> is what
  the database driver raises, \<open>ExternalError\<close> what any other library call raises.
\<close>

datatype exn =
    ValueError string
  | KeyError string
  | IndexError string
  | AttributeError string
  | UnboundLocalError string
  | PyodbcError string
  | ExternalError string

fun exn_str :: "exn \<Rightarrow> string" where
  "exn_str (ValueError m) = m"
| "exn_str (KeyError k) = k"
| "exn_str (IndexError m) = m"
| "exn_str (AttributeError m) = m"
| "exn_str (UnboundLocalError v) =
     ''cannot access local variable '' @ [sq] @ v @ [sq] @
     '' where it is not associated with a value''"
| "exn_str (PyodbcError m) = m"
| "exn_str (ExternalError m) = m"

text \<open>
  Everything the program does to the outside world, in the order it does it: output,
  log lines, and calls into the database driver, the shell, the file system, SSH and
  the object store. A connection is named by a number.
\<close>

text \<open>A parameter of a statement with placeholders: a text, or SQL \<open>NULL\<close> for \<open>None\<close>.\<close>

datatype param = Text string | Null

datatype event =
    Print string
  | LogInfo string
  | LogError string
  | Connect string
  | Cursor nat
  | Execute nat string
  | ExecuteMany nat string "param list list"
  | FetchAll nat
  | Commit nat
  | Rollback nat
  | CursorClose nat
  | ConnClose nat
  | Run string
  | ReadHeader string string
  | ReadCsv string string
  | JsonLoad string
  | ExtractAll string string
  | Remove string
  | Move string string
  | SshConnect string string string string
  | OpenSftp
  | ListDir string
  | SftpGet string string
  | SftpClose
  | SshClose
  | S3List string string
  | S3Download string string string
  | EmptyFolder string
  | HttpGet string
  | WriteFile string

text \<open>A value of a data frame cell: text, a number, or \<open>None\<close>.\<close>

datatype 'f pyval = Str string | Num 'f | NoneVal

text \<open>
  What \<open>json.load\<close> returns, as far as \<open>handle_json\<close> looks at it: an array of items,
  each an object (its keys with the text of their values) or something else (\<open>JOther\<close>
  with the name of its Python type); or no array at all.
\<close>

datatype jitem = JDict "(string \<times> string) list" | JOther string
datatype jdata = JArray "jitem list" | JNotArray

text \<open>
  The outside world answers every call. \<open>raises h e\<close> says whether call \<open>e\<close>, made after
  the history \<open>h\<close>, raises, and with which text; the other fields are what calls return.
  \<open>pyfloat\<close> is \<open>float()\<close> on a string (\<open>None\<close> where it raises ValueError), \<open>fneg\<close> the
  negation of a float, \<open>column_text\<close> what pandas' \<open>convert_dtypes().astype(str)\<close> makes of
  one column of a frame (the texts of its cells), \<open>no_scheme\<close> whether \<open>requests\<close> finds no
  scheme in a URL. The \<open>os.path\<close> functions depend on the platform.
\<close>

record 'f world =
  raises :: "event list \<Rightarrow> event \<Rightarrow> string option"
  fetched :: "event list \<Rightarrow> string list"
  returncode :: "event list \<Rightarrow> string \<Rightarrow> int"
  csv_first_row :: "event list \<Rightarrow> string \<Rightarrow> string list"
  csv_frame :: "event list \<Rightarrow> string \<Rightarrow> string list \<times> 'f pyval list list"
  json_data :: "event list \<Rightarrow> string \<Rightarrow> jdata"
  walk :: "event list \<Rightarrow> string \<Rightarrow> (string \<times> string list) list"
  path_exists :: "event list \<Rightarrow> string \<Rightarrow> bool"
  is_zipfile :: "event list \<Rightarrow> string \<Rightarrow> bool"
  listdir :: "event list \<Rightarrow> string \<Rightarrow> string list"
  s3_contents :: "event list \<Rightarrow> string \<Rightarrow> string \<Rightarrow> string list option"
  pyfloat :: "string \<Rightarrow> 'f option"
  fneg :: "'f \<Rightarrow> 'f"
  column_text :: "'f pyval list \<Rightarrow> string list"
  no_scheme :: "string \<Rightarrow> bool"
  os_seps :: string
  os_join :: "string \<Rightarrow> string \<Rightarrow> string"
  os_dirname :: "string \<Rightarrow> string"
  os_basename :: "string \<Rightarrow> string"

text \<open>
  The program state: the one attribute that is assigned during a run, and the history
  of events.
\<close>

record st =
  drop_table_if_exists :: bool
  trace :: "event list"

type_synonym 'a res = "(exn + 'a) \<times> st"

text \<open>Output and log lines: \<open>print\<close> and \<open>logging\<close> add to the history and do not raise.\<close>

definition emit :: "event \<Rightarrow> st \<Rightarrow> st" where
  "emit e s = s\<lparr>trace := trace s @ [e]\<rparr>"

text \<open>The class of the exception a failing call raises.\<close>

fun exn_of :: "event \<Rightarrow> string \<Rightarrow> exn" where
  "exn_of (Connect c) m = PyodbcError m"
| "exn_of (Cursor c) m = PyodbcError m"
| "exn_of (Execute c q) m = PyodbcError m"
| "exn_of (ExecuteMany c q d) m = PyodbcError m"
| "exn_of (FetchAll c) m = PyodbcError m"
| "exn_of (Commit c) m = PyodbcError m"
| "exn_of (Rollback c) m = PyodbcError m"
| "exn_of (CursorClose c) m = PyodbcError m"
| "exn_of (ConnClose c) m = PyodbcError m"
| "exn_of e m = ExternalError m"

text \<open>A call that may raise: the world decides, from the history.\<close>

definition call :: "'f world \<Rightarrow> event \<Rightarrow> st \<Rightarrow> unit res" where
  "call w e s =
     (case raises w (trace s) e of
        Some m \<Rightarrow> (Inl (exn_of e m), emit e s)
      | None \<Rightarrow> (Inr (), emit e s))"

text \<open>Sequencing: an exception skips the rest.\<close>

definition bnd :: "(st \<Rightarrow> 'a res) \<Rightarrow> ('a \<Rightarrow> st \<Rightarrow> 'b res) \<Rightarrow> st \<Rightarrow> 'b res" where
  "bnd m f s = (case m s of (Inl e, s') \<Rightarrow> (Inl e, s') | (Inr x, s') \<Rightarrow> f x s')"

definition ret :: "'a \<Rightarrow> st \<Rightarrow> 'a res" where
  "ret x s = (Inr x, s)"

definition say :: "event \<Rightarrow> st \<Rightarrow> unit res" where
  "say e s = (Inr (), emit e s)"

text \<open>
  \<open>try: m except Exception as e: h\<close>, and \<open>try: m finally: fin\<close>. The \<open>finally\<close> block runs
  however \<open>m\<close> ended; an exception raised in it replaces the outcome of \<open>m\<close>, otherwise
  that outcome stands.
\<close>

definition try_except :: "(st \<Rightarrow> 'a res) \<Rightarrow> (exn \<Rightarrow> st \<Rightarrow> 'a res) \<Rightarrow> st \<Rightarrow> 'a res" where
  "try_except m h s = (case m s of (Inl e, s1) \<Rightarrow> h e s1 | (Inr x, s1) \<Rightarrow> (Inr x, s1))"

definition try_finally :: "(st \<Rightarrow> 'a res) \<Rightarrow> (st \<Rightarrow> unit res) \<Rightarrow> st \<Rightarrow> 'a res" where
  "try_finally m fin s =
     (case m s of
        (r, s1) \<Rightarrow> (case fin s1 of (Inl e, s2) \<Rightarrow> (Inl e, s2) | (Inr _, s2) \<Rightarrow> (r, s2)))"

text \<open>A call that returns what the world answers.\<close>

definition fetchall :: "'f world \<Rightarrow> nat \<Rightarrow> st \<Rightarrow> string list res" where
  "fetchall w c s = bnd (call w (FetchAll c)) (\<lambda>_. ret (fetched w (trace s))) s"

definition subprocess_run :: "'f world \<Rightarrow> string \<Rightarrow> st \<Rightarrow> int res" where
  "subprocess_run w cmd s = bnd (call w (Run cmd)) (\<lambda>_. ret (returncode w (trace s) cmd)) s"

text \<open>\<open>str(n)\<close> for a natural number.\<close>

fun str_nat :: "nat \<Rightarrow> string" where
  "str_nat n =
     (if n < 10 then [char_of (48 + n)]
      else str_nat (n div 10) @ [char_of (48 + n mod 10)])"

section \<open>connect\_to\_database\<close>

definition conn_str :: "config \<Rightarrow> string" where
  "conn_str cfg =
     ''DRIVER={SQL Server};SERVER='' @ dbServer cfg @ '';DATABASE='' @ dbName cfg @ '';'' @
     (if uid cfg \<noteq> [] \<and> pwd cfg \<noteq> []
      then ''UID='' @ uid cfg @ '';PWD='' @ pwd cfg
      else ''Trusted_Connection=yes;'')"

text \<open>The connection returned is named by the position of its \<open>Connect\<close> event.\<close>

definition connect_to_database :: "'f world \<Rightarrow> config \<Rightarrow> st \<Rightarrow> nat res" where
  "connect_to_database w cfg s =
     (if db_type cfg = ''mssql''
      then bnd (call w (Connect (conn_str cfg))) (\<lambda>_. ret (length (trace s))) s
      else (Inl (ValueError ''Unsupported database type''), s))"

section \<open>create\_table\_and\_view\<close>

datatype columns = ColList "string list" | ColStr string

fun as_list :: "columns \<Rightarrow> string list" where
  "as_list (ColList xs) = xs"
| "as_list (ColStr x) = split x '', ''"

definition drop_table_query :: "string \<Rightarrow> string" where
  "drop_table_query t =
     ''IF EXISTS (SELECT * FROM sys.tables WHERE name = N'' @ [sq] @ t @ [sq] @
     '' AND type = '' @ [sq] @ ''U'' @ [sq] @ '') DROP TABLE '' @ t"

definition create_table_query :: "string \<Rightarrow> string list \<Rightarrow> string" where
  "create_table_query t cols =
     ''CREATE TABLE '' @ t @ '' (RecId INT PRIMARY KEY IDENTITY(1,1), '' @
     join '', '' cols @ '')''"

definition select_columns_query :: "string \<Rightarrow> string" where
  "select_columns_query t =
     ''SELECT COLUMN_NAME FROM INFORMATION_SCHEMA.COLUMNS WHERE TABLE_NAME = N'' @
     [sq] @ t @ [sq] @ '' ORDER BY ORDINAL_POSITION''"

definition drop_view_query :: "string \<Rightarrow> string" where
  "drop_view_query t =
     ''IF EXISTS (SELECT * FROM sys.views WHERE name = N'' @ [sq] @ t @ ''_View'' @ [sq] @
     '') DROP VIEW '' @ t @ ''_View''"

definition create_view_query :: "string \<Rightarrow> string list \<Rightarrow> string" where
  "create_view_query t cols =
     ''CREATE VIEW '' @ t @ ''_View AS SELECT '' @
     join '', '' (map (\<lambda>c. ''['' @ c @ '']'') (tl cols)) @ '' FROM '' @ t"

text \<open>The statements under \<open>if self.drop_table_if_exists:\<close>, on connection \<open>c\<close>.\<close>

definition create_replace :: "'f world \<Rightarrow> string \<Rightarrow> string list \<Rightarrow> nat \<Rightarrow> st \<Rightarrow> unit res" where
  "create_replace w t cols c =
     bnd (call w (Execute c (drop_table_query t))) (\<lambda>_.
     bnd (call w (Commit c)) (\<lambda>_.
     bnd (call w (Execute c (create_table_query t cols))) (\<lambda>_.
     bnd (call w (Commit c)) (\<lambda>_.
     bnd (say (LogInfo (''Table '' @ t @ '' created or verified successfully.''))) (\<lambda>_.
     bnd (call w (Execute c (select_columns_query t))) (\<lambda>_.
     bnd (fetchall w c) (\<lambda>live.
     bnd (call w (Execute c (drop_view_query t))) (\<lambda>_.
     bnd (call w (Commit c)) (\<lambda>_.
     bnd (call w (Execute c (create_view_query t live))) (\<lambda>_.
     bnd (call w (Commit c)) (\<lambda>_.
     say (LogInfo (''View '' @ t @ ''_View created successfully.'')))))))))))))"

definition create_error :: "string \<Rightarrow> exn \<Rightarrow> event" where
  "create_error t e =
     LogError (''An error occurred while creating or verifying the table '' @ t @ '': '' @
               exn_str e)"

text \<open>The \<open>finally\<close> block of the methods that hold a cursor and a connection.\<close>

definition close_both :: "'f world \<Rightarrow> nat \<Rightarrow> st \<Rightarrow> unit res" where
  "close_both w conn = bnd (call w (CursorClose conn)) (\<lambda>_. call w (ConnClose conn))"

text \<open>
  The \<open>try\<close> block binds \<open>conn\<close>, then \<open>cursor\<close>. The handler logs and calls
  \<open>conn.rollback()\<close>; the \<open>finally\<close> block calls \<open>cursor.close()\<close>, then \<open>conn.close()\<close>.
  Where \<open>cursor\<close> was never bound the \<open>finally\<close> block raises UnboundLocalError, which
  replaces whatever the handler raised and leaves the function. Once both are bound,
  an exception raised by the rollback or by one of the two closes leaves the function
  too.
\<close>

definition create_table_and_view ::
  "'f world \<Rightarrow> config \<Rightarrow> columns \<Rightarrow> string \<Rightarrow> st \<Rightarrow> unit res" where
  "create_table_and_view w cfg columns_sql tableName s =
     (case connect_to_database w cfg s of
        (Inl e, s1) \<Rightarrow>
          (Inl (UnboundLocalError ''cursor''), emit (create_error tableName e) s1)
      | (Inr conn, s1) \<Rightarrow>
          (case call w (Cursor conn) s1 of
             (Inl e, s2) \<Rightarrow>
               (Inl (UnboundLocalError ''cursor''),
                snd (call w (Rollback conn) (emit (create_error tableName e) s2)))
           | (Inr _, s2) \<Rightarrow>
               try_finally
                 (try_except
                    (\<lambda>s'. if drop_table_if_exists s'
                          then create_replace w tableName (as_list columns_sql) conn s'
                          else (Inr (), s'))
                    (\<lambda>e. bnd (say (create_error tableName e)) (\<lambda>_. call w (Rollback conn))))
                 (close_both w conn) s2))"

section \<open>The load strategies\<close>

subsection \<open>bcp\_import\<close>

definition bcp_command :: "config \<Rightarrow> string \<Rightarrow> string \<Rightarrow> string" where
  "bcp_command cfg file_path tableName =
     (let delimiter = (if field_delimiter cfg = [tab] then [dq, bslash, CHR ''t'', dq]
                       else field_delimiter cfg)
      in ''bcp '' @ dbName cfg @ ''.dbo.'' @ tableName @ ''_View IN '' @ file_path @
         '' -F '' @ bcp_row_start cfg @ '' -c '' @ replicate 12 CHR '' '' @
         ''-b '' @ bcp_batch_commit_size cfg @ '' -t'' @ delimiter @
         '' -S '' @ dbServer cfg @ '' -r '' @ bcp_end_of_row cfg @ '' '' @
         (if uid cfg \<noteq> [] then ''-U '' @ uid cfg @ '' -P '' @ pwd cfg else ''-T''))"

text \<open>
  \<open>subprocess.run(bcp_command, shell=True)\<close>: the completed process, with its return
  code, is dropped.
\<close>

definition bcp_import :: "'f world \<Rightarrow> config \<Rightarrow> string \<Rightarrow> string \<Rightarrow> st \<Rightarrow> unit res" where
  "bcp_import w cfg file_path tableName s =
     (case subprocess_run w (bcp_command cfg file_path tableName) s of
        (Inl e, s1) \<Rightarrow> (Inr (), emit (Print (''BCP import failed: '' @ exn_str e)) s1)
      | (Inr rc, s1) \<Rightarrow> (Inr (), emit (Print ''BCP import succeeded'') s1))"

subsection \<open>bulkInsert\_import\<close>

definition bulk_insert_sql :: "config \<Rightarrow> string \<Rightarrow> string \<Rightarrow> string" where
  "bulk_insert_sql cfg file_path tableName =
     [nl] @ ''        BULK INSERT '' @ tableName @ [nl] @
     ''        FROM '' @ [sq] @ file_path @ [sq] @ [nl] @
     ''        WITH ('' @ [nl] @
     ''            FIELDTERMINATOR = '' @ [sq] @ field_delimiter cfg @ [sq] @ '','' @ [nl] @
     ''            ROWTERMINATOR = '' @ [sq] @ bcp_end_of_row cfg @ [sq] @ '','' @ [nl] @
     ''            FIRSTROW = '' @ bcp_row_start cfg @ '','' @ [nl] @
     ''            BATCHSIZE = '' @ bcp_batch_commit_size cfg @ [nl] @
     ''        )'' @ [nl] @
     ''        ''"

text \<open>
  The connection and the cursor are made before the \<open>try\<close>. The handler catches
  \<open>pyodbc.Error\<close> only; the \<open>finally\<close> block closes both.
\<close>

definition bulkInsert_import :: "'f world \<Rightarrow> config \<Rightarrow> string \<Rightarrow> string \<Rightarrow> st \<Rightarrow> unit res" where
  "bulkInsert_import w cfg file_path tableName =
     bnd (connect_to_database w cfg) (\<lambda>conn.
     bnd (call w (Cursor conn)) (\<lambda>_.
       try_finally
         (\<lambda>s.
            (case bnd (call w (Execute conn (bulk_insert_sql cfg file_path tableName)))
                      (\<lambda>_. call w (Commit conn)) s of
               (Inl (PyodbcError m), s1) \<Rightarrow>
                 (Inr (), emit (Print (''BULK INSERT failed: '' @ m)) s1)
             | (Inl e, s1) \<Rightarrow> (Inl e, s1)
             | (Inr _, s1) \<Rightarrow> (Inr (), emit (Print ''BULK INSERT succeeded'') s1)))
         (close_both w conn)))"

subsection \<open>pandas\_import and convert\_values\<close>

text \<open>
  \<open>repr(s)\<close> of a string, which \<open>float\<close> puts into its error message: double quotes
  around it where it holds a single quote and no double quote, single quotes otherwise;
  the quote character and the backslash are escaped, and a character that is not
  printable is written \<open>\t\<close>, \<open>\n\<close>, \<open>\r\<close> or \<open>\xhh\<close>. A character is a code point below 256.
\<close>

definition hex_digit :: "nat \<Rightarrow> char" where
  "hex_digit n = ''0123456789abcdef'' ! n"

definition repr_char :: "char \<Rightarrow> char \<Rightarrow> string" where
  "repr_char q c =
     (let n = (of_char c :: nat) in
      if c = q \<or> c = bslash then [bslash, c]
      else if c = tab then [bslash, CHR ''t'']
      else if c = nl then [bslash, CHR ''n'']
      else if c = cr then [bslash, CHR ''r'']
      else if n < 32 \<or> n = 127 \<or> (128 \<le> n \<and> n \<le> 160) \<or> n = 173
        then [bslash, CHR ''x'', hex_digit (n div 16), hex_digit (n mod 16)]
      else [c])"

definition py_repr :: "string \<Rightarrow> string" where
  "py_repr s =
     (let q = (if sq \<in> set s \<and> dq \<notin> set s then dq else sq)
      in [q] @ concat (map (repr_char q) s) @ [q])"

text \<open>
  \<open>convert_values\<close>, with \<open>float\<close> and the negation of a float as parameters. A value
  that is not a string is returned as it is.
\<close>

fun convert_values :: "(string \<Rightarrow> 'f option) \<Rightarrow> ('f \<Rightarrow> 'f) \<Rightarrow> 'f pyval \<Rightarrow> exn + 'f pyval" where
  "convert_values pf ng (Str v0) =
     (let val = strip_chars [dq] v0 in
      if startswith val ''('' \<and> endswith val '')'' then
        (case pf (butlast (tl val)) of
           None \<Rightarrow> Inl (ValueError (''could not convert string to float: '' @
                                     py_repr (butlast (tl val))))
         | Some x \<Rightarrow> Inr (Num (ng x)))
      else if val = ''-'' then Inr NoneVal
      else if val = ''<NA>'' then Inr NoneVal
      else Inr (Str val))"
| "convert_values pf ng v = Inr v"

fun map_exn :: "('a \<Rightarrow> exn + 'b) \<Rightarrow> 'a list \<Rightarrow> exn + 'b list" where
  "map_exn f [] = Inr []"
| "map_exn f (x # xs) =
     (case f x of
        Inl e \<Rightarrow> Inl e
      | Inr y \<Rightarrow> (case map_exn f xs of Inl e \<Rightarrow> Inl e | Inr ys \<Rightarrow> Inr (y # ys)))"

text \<open>\<open>df.apply(lambda col: col.apply(convert_values))\<close> on the columns of a frame.\<close>

definition apply_convert :: "'f world \<Rightarrow> 'f pyval list list \<Rightarrow> st \<Rightarrow> 'f pyval list list res" where
  "apply_convert w cols s =
     (map_exn (map_exn (convert_values (pyfloat w) (fneg w))) cols, s)"

text \<open>
  \<open>.convert_dtypes()\<close> and \<open>df.astype(str)\<close>: every cell of every column becomes a text.
  The line that would put \<open>None\<close> back where the text is \<open><NA>\<close> is commented out in the
  source.
\<close>

definition astype_str :: "'f world \<Rightarrow> 'f pyval list list \<Rightarrow> string list list" where
  "astype_str w cols = map (column_text w) cols"

text \<open>
  \<open>[tuple(row) for row in df.values]\<close>: the rows of a frame that is held as its columns.
  Each text is a parameter of the insert statement.
\<close>

definition frame_rows :: "string list list \<Rightarrow> param list list" where
  "frame_rows cols = transpose (map (map Text) cols)"

definition read_csv :: "'f world \<Rightarrow> string \<Rightarrow> string \<Rightarrow> st \<Rightarrow> (string list \<times> 'f pyval list list) res" where
  "read_csv w file_path delimiter s =
     bnd (call w (ReadCsv file_path delimiter)) (\<lambda>_. ret (csv_frame w (trace s) file_path)) s"

definition view_columns_query :: "string \<Rightarrow> string" where
  "view_columns_query t =
     ''SELECT COLUMN_NAME FROM INFORMATION_SCHEMA.COLUMNS WHERE TABLE_NAME = '' @
     [sq] @ t @ ''_View'' @ [sq] @ '' ORDER BY ORDINAL_POSITION''"

definition insert_query :: "string \<Rightarrow> string list \<Rightarrow> nat \<Rightarrow> string" where
  "insert_query t view_cols n =
     ''INSERT INTO '' @ t @ ''_View ('' @ join '', '' (map (\<lambda>c. ''['' @ c @ '']'') view_cols) @
     '') VALUES ('' @ join '', '' (replicate n ''?'') @ '')''"

text \<open>
  The statements of the \<open>try\<close> block once \<open>conn\<close> and \<open>cursor\<close> are bound; \<open>df\<close> is the
  frame after \<open>astype(str)\<close>, its column names and its columns.
\<close>

definition pandas_insert ::
  "'f world \<Rightarrow> string \<Rightarrow> string \<Rightarrow> nat \<Rightarrow> string list \<times> string list list \<Rightarrow> st \<Rightarrow> unit res" where
  "pandas_insert w file_path t conn df =
     bnd (call w (Execute conn (view_columns_query t))) (\<lambda>_.
     bnd (fetchall w conn) (\<lambda>view_cols.
     bnd (call w (ExecuteMany conn (insert_query t view_cols (length (fst df)))
                    (frame_rows (snd df)))) (\<lambda>_.
     bnd (say (Print (str_nat (length (frame_rows (snd df))) @ '' rows were imported.''))) (\<lambda>_.
     bnd (call w (Commit conn)) (\<lambda>_.
     say (LogInfo (''Pandas data from '' @ file_path @ '' inserted successfully.'')))))))"

text \<open>
  The handler prints and swallows, the \<open>else\<close> branch prints; the \<open>finally\<close> block calls
  \<open>cursor.close()\<close> and \<open>conn.close()\<close>, and raises UnboundLocalError where the \<open>try\<close> block
  failed before \<open>cursor\<close> was bound.
\<close>

definition pandas_import :: "'f world \<Rightarrow> config \<Rightarrow> string \<Rightarrow> string \<Rightarrow> st \<Rightarrow> unit res" where
  "pandas_import w cfg file_path tableName s =
     (case bnd (read_csv w file_path (filter (\<lambda>c. c \<noteq> dq) (field_delimiter cfg)))
               (\<lambda>df. bnd (apply_convert w (snd df))
               (\<lambda>cols. bnd (connect_to_database w cfg)
               (\<lambda>conn. ret ((fst df, astype_str w cols), conn)))) s of
        (Inl e, s1) \<Rightarrow>
          (Inl (UnboundLocalError ''cursor''),
           emit (Print (''Pandas import failed: '' @ exn_str e)) s1)
      | (Inr (df, conn), s1) \<Rightarrow>
          (case call w (Cursor conn) s1 of
             (Inl e, s2) \<Rightarrow>
               (Inl (UnboundLocalError ''cursor''),
                emit (Print (''Pandas import failed: '' @ exn_str e)) s2)
           | (Inr _, s2) \<Rightarrow>
               try_finally
                 (try_except
                    (bnd (pandas_insert w file_path tableName conn df)
                         (\<lambda>_. say (Print ''Pandas import succeeded'')))
                    (\<lambda>e. say (Print (''Pandas import failed: '' @ exn_str e))))
                 (close_both w conn) s2))"

section \<open>The file handlers\<close>

subsection \<open>handle\_csv\<close>

text \<open>
  Opening the file and reading its first row is one call, \<open>ReadHeader\<close>; it raises where
  the file cannot be opened or has no row.
\<close>

definition read_header :: "'f world \<Rightarrow> string \<Rightarrow> string \<Rightarrow> st \<Rightarrow> string list res" where
  "read_header w file_path delimiter s =
     bnd (call w (ReadHeader file_path delimiter))
         (\<lambda>_. ret (csv_first_row w (trace s) file_path)) s"

text \<open>The inner \<open>try\<close>: the configured load strategy; its handler logs and swallows.\<close>

definition import_data :: "'f world \<Rightarrow> config \<Rightarrow> string \<Rightarrow> string \<Rightarrow> st \<Rightarrow> unit res" where
  "import_data w cfg file_path tableName s =
     (case (if bcp_import_bool cfg then bcp_import w cfg file_path tableName s
            else if pandas_import_bool cfg then pandas_import w cfg file_path tableName s
            else say (Print ''No import method selected'') s) of
        (Inl e, s1) \<Rightarrow>
          (Inr (), emit (LogError (''Error importing data from '' @ file_path @ '' to '' @
                                   tableName @ '': '' @ exn_str e)) s1)
      | (Inr _, s1) \<Rightarrow> (Inr (), s1))"

definition handle_csv :: "'f world \<Rightarrow> config \<Rightarrow> string \<Rightarrow> string \<Rightarrow> st \<Rightarrow> unit res" where
  "handle_csv w cfg file_path tableName s =
     (case bnd (say (Print (''Processing CSV file: '' @ file_path))) (\<lambda>_.
           bnd (if file_has_header cfg
                then bnd (read_header w file_path (field_delimiter cfg)) (\<lambda>columns.
                     create_table_and_view w cfg
                       (ColList (map (\<lambda>column. ''['' @ column @ ''] varchar(max)'') columns))
                       tableName)
                else ret ()) (\<lambda>_.
           bnd (say (Print (''Importing data from '' @ file_path @ '' to '' @ tableName))) (\<lambda>_.
           import_data w cfg file_path tableName))) s of
        (Inl e, s1) \<Rightarrow>
          (Inr (), emit (LogError (''Error processing CSV file '' @ file_path @ '': '' @
                                   exn_str e)) s1)
      | (Inr _, s1) \<Rightarrow> (Inr (), s1))"

subsection \<open>handle\_json\<close>

text \<open>\<open>data[0].keys()\<close>: \<open>JNotArray\<close> stands for a JSON object at the top level.\<close>

definition no_keys :: "string \<Rightarrow> exn" where
  "no_keys ty =
     AttributeError ([sq] @ ty @ [sq] @ '' object has no attribute '' @ [sq] @ ''keys'' @ [sq])"

fun first_keys :: "jdata \<Rightarrow> exn + string list" where
  "first_keys JNotArray = Inl (KeyError ''0'')"
| "first_keys (JArray []) = Inl (IndexError ''list index out of range'')"
| "first_keys (JArray (JOther ty # xs)) = Inl (no_keys ty)"
| "first_keys (JArray (JDict kv # xs)) = Inr (map fst kv)"

fun items_of :: "jdata \<Rightarrow> jitem list" where
  "items_of (JArray xs) = xs"
| "items_of JNotArray = []"

definition json_insert_query :: "string \<Rightarrow> (string \<times> string) list \<Rightarrow> string" where
  "json_insert_query t kv =
     ''INSERT INTO '' @ t @ '' ('' @ join '', '' (map fst kv) @ '') VALUES ('' @
     join '', '' (map (\<lambda>p. [sq] @ snd p @ [sq]) kv) @ '')''"

text \<open>The loop \<open>for item in data\<close>.\<close>

fun insert_items :: "'f world \<Rightarrow> string \<Rightarrow> nat \<Rightarrow> jitem list \<Rightarrow> st \<Rightarrow> unit res" where
  "insert_items w t c [] s = (Inr (), s)"
| "insert_items w t c (JOther ty # xs) s = (Inl (no_keys ty), s)"
| "insert_items w t c (JDict kv # xs) s =
     (case call w (Execute c (json_insert_query t kv)) s of
        (Inl e, s1) \<Rightarrow> (Inl e, s1)
      | (Inr _, s1) \<Rightarrow> insert_items w t c xs s1)"

definition load_json :: "'f world \<Rightarrow> string \<Rightarrow> st \<Rightarrow> jdata res" where
  "load_json w file_path s =
     bnd (call w (JsonLoad file_path)) (\<lambda>_. ret (json_data w (trace s) file_path)) s"

text \<open>The \<open>try\<close> block once \<open>conn\<close> and \<open>cursor\<close> are bound.\<close>

definition json_body :: "'f world \<Rightarrow> config \<Rightarrow> string \<Rightarrow> string \<Rightarrow> nat \<Rightarrow> st \<Rightarrow> unit res" where
  "json_body w cfg file_path tableName conn =
     bnd (load_json w file_path) (\<lambda>data.
     bnd (\<lambda>s. (first_keys data, s)) (\<lambda>columns.
     bnd (create_table_and_view w cfg
            (ColStr (join '', '' (map (\<lambda>column. ''['' @ column @ ''] NVARCHAR(MAX)'') columns)))
            tableName) (\<lambda>_.
     bnd (insert_items w tableName conn (items_of data)) (\<lambda>_.
     bnd (call w (Commit conn)) (\<lambda>_.
     say (LogInfo (''JSON data from '' @ file_path @ '' inserted successfully.'')))))))"

definition json_error :: "string \<Rightarrow> exn \<Rightarrow> event" where
  "json_error file_path e =
     LogError (''Error processing file '' @ file_path @ '': '' @ exn_str e)"

text \<open>
  As in \<open>create_table_and_view\<close>: the handler logs and calls \<open>conn.rollback()\<close>, the
  \<open>finally\<close> block calls \<open>cursor.close()\<close> and \<open>conn.close()\<close>, and each of the three may
  raise.
\<close>

definition handle_json :: "'f world \<Rightarrow> config \<Rightarrow> string \<Rightarrow> string \<Rightarrow> st \<Rightarrow> unit res" where
  "handle_json w cfg file_path tableName s =
     (case connect_to_database w cfg s of
        (Inl e, s1) \<Rightarrow>
          (Inl (UnboundLocalError ''cursor''), emit (json_error file_path e) s1)
      | (Inr conn, s1) \<Rightarrow>
          (case call w (Cursor conn) s1 of
             (Inl e, s2) \<Rightarrow>
               (Inl (UnboundLocalError ''cursor''),
                snd (call w (Rollback conn) (emit (json_error file_path e) s2)))
           | (Inr _, s2) \<Rightarrow>
               try_finally
                 (try_except
                    (json_body w cfg file_path tableName conn)
                    (\<lambda>e. bnd (say (json_error file_path e)) (\<lambda>_. call w (Rollback conn))))
                 (close_both w conn) s2))"

section \<open>extract\_file\_if\_compressed\<close>

text \<open>Nothing is caught here: a failing extraction, removal or move leaves the function.\<close>

definition extract_file_if_compressed :: "'f world \<Rightarrow> config \<Rightarrow> string \<Rightarrow> st \<Rightarrow> unit res" where
  "extract_file_if_compressed w cfg file_path =
     (if snd (splitext (os_seps w) file_path) = ''.zip'' then
        bnd (call w (ExtractAll file_path (os_dirname w file_path))) (\<lambda>_.
        bnd (say (LogInfo (''Extracted '' @ file_path))) (\<lambda>_.
        bnd (\<lambda>s. if path_exists w (trace s) (os_join w (archive_path cfg) (os_basename w file_path))
                 then call w (Remove (os_join w (archive_path cfg) (os_basename w file_path))) s
                 else (Inr (), s)) (\<lambda>_.
        bnd (say (Print (''Moving '' @ file_path @ '' to the archive folder '' @
                          archive_path cfg @ '' ...''))) (\<lambda>_.
        call w (Move file_path (archive_path cfg))))))
      else ret ())"

section \<open>process\_file\<close>

text \<open>\<open>file_type_handlers[self.file_type]\<close>, then the two lines that follow it.\<close>

definition run_handler :: "'f world \<Rightarrow> config \<Rightarrow> string \<Rightarrow> string \<Rightarrow> st \<Rightarrow> unit res" where
  "run_handler w cfg csv_file_path tableName =
     (if file_type cfg = ''txt'' \<or> file_type cfg = ''csv'' then
        bnd (say (Print (''Processing '' @ file_type cfg @ '' file: '' @ csv_file_path)))
            (\<lambda>_. handle_csv w cfg csv_file_path tableName)
      else if file_type cfg = ''json'' then
        bnd (say (Print (''Processing '' @ file_type cfg @ '' file: '' @ csv_file_path)))
            (\<lambda>_. handle_json w cfg csv_file_path tableName)
      else (\<lambda>s. (Inl (KeyError ([sq] @ file_type cfg @ [sq])), s)))"

definition processed_msg :: "config \<Rightarrow> string \<Rightarrow> event" where
  "processed_msg cfg p = LogInfo (''Processed '' @ file_type cfg @ '' file: '' @ p)"

definition process_error :: "string \<Rightarrow> exn \<Rightarrow> event" where
  "process_error p e = LogError (''Error processing file '' @ p @ '': '' @ exn_str e)"

definition moved_msg :: "string \<Rightarrow> event" where
  "moved_msg file = LogInfo (''Moved '' @ file @ '' to the archive folder.'')"

definition move_error :: "string \<Rightarrow> exn \<Rightarrow> event" where
  "move_error p e = LogError (''Error moving file '' @ p @ '' to archive: '' @ exn_str e)"

text \<open>The body of \<open>for file in files\<close>, for one file of directory \<open>root\<close>.\<close>

definition process_one ::
  "'f world \<Rightarrow> config \<Rightarrow> string \<Rightarrow> string \<Rightarrow> string \<Rightarrow> string \<Rightarrow> st \<Rightarrow> st" where
  "process_one w cfg archive tableName root file s =
     (let s1 = emit (Print (''Processing file: '' @ file)) s in
      if endswith file (file_suffix cfg @ ''.'' @ file_type cfg) then
        (let csv_file_path = os_join w root file;
             s2 = emit (Print (''Valid file found: '' @ csv_file_path)) s1
         in case run_handler w cfg csv_file_path tableName s2 of
              (Inl e, s3) \<Rightarrow> emit (process_error csv_file_path e) s3
            | (Inr _, s3) \<Rightarrow>
                (let s4 = emit (processed_msg cfg csv_file_path)
                            (s3\<lparr>drop_table_if_exists := False\<rparr>)
                 in case call w (Move csv_file_path (os_join w archive file)) s4 of
                      (Inl e, s5) \<Rightarrow> emit (move_error csv_file_path e) s5
                    | (Inr _, s5) \<Rightarrow>
                        (emit (moved_msg file) s5)\<lparr>drop_table_if_exists := False\<rparr>))
      else emit (Print (''Expected file suffix: '' @ file_suffix cfg @ ''.'' @ file_type cfg))
             (emit (Print (''Invalid file found: '' @ file)) s1))"

text \<open>The two nested loops over what \<open>os.walk\<close> yields: pairs of a directory and its files.\<close>

fun process_files ::
  "'f world \<Rightarrow> config \<Rightarrow> string \<Rightarrow> string \<Rightarrow> string \<Rightarrow> string list \<Rightarrow> st \<Rightarrow> st" where
  "process_files w cfg archive tableName root [] s = s"
| "process_files w cfg archive tableName root (file # files) s =
     process_files w cfg archive tableName root files
       (process_one w cfg archive tableName root file s)"

fun process_walk ::
  "'f world \<Rightarrow> config \<Rightarrow> string \<Rightarrow> string \<Rightarrow> (string \<times> string list) list \<Rightarrow> st \<Rightarrow> st" where
  "process_walk w cfg archive tableName [] s = s"
| "process_walk w cfg archive tableName ((root, files) # rest) s =
     process_walk w cfg archive tableName rest
       (process_files w cfg archive tableName root files s)"

text \<open>
  What \<open>process_file\<close> does before it walks the directory: it prints, and expands the
  archive where the path ends in \<open>.zip\<close>.
\<close>

definition enter_directory :: "'f world \<Rightarrow> config \<Rightarrow> string \<Rightarrow> st \<Rightarrow> unit res" where
  "enter_directory w cfg file_path =
     bnd (say (Print (''Processing file: '' @ file_path))) (\<lambda>_.
     bnd (if endswith file_path ''.zip''
          then bnd (say (Print (''Extracting file: '' @ file_path)))
                   (\<lambda>_. extract_file_if_compressed w cfg file_path)
          else ret ()) (\<lambda>_.
     say (Print (''Processing files in directory: '' @ os_dirname w file_path))))"

text \<open>
  The outer \<open>try\<close> of \<open>process_file\<close>; its handler logs and swallows. The directory is
  walked as it is once the archive is expanded.
\<close>

definition process_file :: "'f world \<Rightarrow> config \<Rightarrow> string \<Rightarrow> string \<Rightarrow> string \<Rightarrow> st \<Rightarrow> unit res" where
  "process_file w cfg file_path archive tableName =
     try_except
       (bnd (enter_directory w cfg file_path) (\<lambda>_ s'.
          (Inr (), process_walk w cfg archive tableName
                     (walk w (trace s') (os_dirname w file_path)) s')))
       (\<lambda>e. say (LogError (''Error in process_file method: '' @ exn_str e)))"

section \<open>process\_url\<close>







section \<open>The source connectors\<close>

subsection \<open>download\_from\_s3\<close>

text \<open>The test of the second loop, on a file name.\<close>

definition s3_selected :: "'f world \<Rightarrow> config \<Rightarrow> string \<Rightarrow> bool" where
  "s3_selected w cfg file_name =
     (startswith file_name (the_file_prefix cfg) \<and>
      contains (tl (snd (splitext (os_seps w) file_name))) (file_extensions cfg))"

fun s3_download_all ::
  "'f world \<Rightarrow> config \<Rightarrow> string \<Rightarrow> string \<Rightarrow> string \<Rightarrow> string list \<Rightarrow> st \<Rightarrow> unit res" where
  "s3_download_all w cfg s3_bucket s3_folder dest [] s = (Inr (), s)"
| "s3_download_all w cfg s3_bucket s3_folder dest (file_name # rest) s =
     (if s3_selected w cfg file_name then
        (case call w (S3Download s3_bucket (s3_folder @ file_name) (os_join w dest file_name)) s of
           (Inl e, s1) \<Rightarrow> (Inl e, s1)
         | (Inr _, s1) \<Rightarrow>
             s3_download_all w cfg s3_bucket s3_folder dest rest
               (emit (Print (''Copied s3://'' @ s3_bucket @ s3_folder @ file_name @ '' to '' @
                             os_join w dest file_name)) s1))
      else s3_download_all w cfg s3_bucket s3_folder dest rest s)"

text \<open>
  \<open>s3_contents\<close> is the list of keys under \<open>objects['Contents']\<close>, \<open>None\<close> where the answer
  has no such entry. Nothing is caught.
\<close>

definition download_from_s3 ::
  "'f world \<Rightarrow> config \<Rightarrow> string \<Rightarrow> string \<Rightarrow> string \<Rightarrow> st \<Rightarrow> unit res" where
  "download_from_s3 w cfg s3_bucket s3_folder dest s =
     (case call w (S3List s3_bucket s3_folder) s of
        (Inl e, s1) \<Rightarrow> (Inl e, s1)
      | (Inr _, s1) \<Rightarrow>
          (case s3_contents w (trace s) s3_bucket s3_folder of
             None \<Rightarrow> (Inl (KeyError ([sq] @ ''Contents'' @ [sq])), s1)
           | Some keys \<Rightarrow>
               s3_download_all w cfg s3_bucket s3_folder dest
                 (map (\<lambda>file. last (split file ''/''))
                    (filter (\<lambda>file. \<not> endswith file ''/'')
                       (filter (\<lambda>key. \<not> endswith key ''/'') keys))) s1))"

subsection \<open>download\_from\_sftp\<close>

definition extensionList :: "config \<Rightarrow> string list" where
  "extensionList cfg = map strip (split (file_extensions cfg) '','')"

definition sftp_selected :: "config \<Rightarrow> string \<Rightarrow> bool" where
  "sftp_selected cfg f =
     (startswith f (the_file_prefix cfg) \<or>
      list_ex (\<lambda>ext. endswith f (file_suffix cfg @ ''.'' @ ext)) (extensionList cfg))"

text \<open>The loop \<open>for file_name in filtered_files\<close>.\<close>

fun sftp_get_all ::
  "'f world \<Rightarrow> string \<Rightarrow> string \<Rightarrow> string list \<Rightarrow> st \<Rightarrow> unit res" where
  "sftp_get_all w remote_path local_path [] s = (Inr (), s)"
| "sftp_get_all w remote_path local_path (file_name # rest) s =
     (case bnd (call w (SftpGet (os_join w remote_path file_name)
                                (os_join w local_path file_name))) (\<lambda>_.
           bnd (say (Print (''Downloaded '' @ file_name @ '' to '' @ local_path))) (\<lambda>_. (\<lambda>s'.
             if is_zipfile w (trace s') (os_join w local_path file_name) then
               bnd (call w (ExtractAll (os_join w local_path file_name)
                      (os_join w local_path (fst (splitext (os_seps w) file_name))))) (\<lambda>_.
               say (Print (''Extracted '' @ file_name @ '' to '' @
                      os_join w local_path (fst (splitext (os_seps w) file_name))))) s'
             else (Inr (), s')))) s of
        (Inl e, s1) \<Rightarrow> (Inl e, s1)
      | (Inr _, s1) \<Rightarrow> sftp_get_all w remote_path local_path rest s1)"

text \<open>
  The \<open>try\<close> block binds \<open>sftp\<close> after \<open>ssh.connect\<close> and \<open>ssh.open_sftp\<close>. The handler
  prints and swallows. The \<open>finally\<close> block calls \<open>sftp.close()\<close>, then \<open>ssh.close()\<close>:
  where \<open>sftp\<close> was never bound the first of them raises UnboundLocalError and the
  second is not reached.
\<close>

definition download_from_sftp ::
  "'f world \<Rightarrow> config \<Rightarrow> string \<Rightarrow> string \<Rightarrow> string \<Rightarrow> string \<Rightarrow> string \<Rightarrow> string \<Rightarrow>
   st \<Rightarrow> unit res" where
  "download_from_sftp w cfg host port username password remote_path local_path s =
     (case bnd (call w (SshConnect host port username password))
               (\<lambda>_. call w OpenSftp) s of
        (Inl e, s1) \<Rightarrow>
          (Inl (UnboundLocalError ''sftp''),
           emit (Print (''Failed to download files: '' @ exn_str e)) s1)
      | (Inr _, s1) \<Rightarrow>
          try_finally
            (try_except
               (bnd (call w (ListDir remote_path)) (\<lambda>_.
                  sftp_get_all w remote_path local_path
                    (filter (sftp_selected cfg) (listdir w (trace s1) remote_path))))
               (\<lambda>e. say (Print (''Failed to download files: '' @ exn_str e))))
            (bnd (call w SftpClose) (\<lambda>_. call w SshClose)) s1)"

section \<open>Concrete configurations and worlds\<close>

text \<open>The POSIX versions of the \<open>os.path\<close> functions, for the examples.\<close>

definition posix_join :: "string \<Rightarrow> string \<Rightarrow> string" where
  "posix_join a b =
     (if startswith b ''/'' then b
      else if a = [] \<or> endswith a ''/'' then a @ b
      else a @ ''/'' @ b)"

definition posix_basename :: "string \<Rightarrow> string" where
  "posix_basename p = rev (takeWhile (\<lambda>c. c \<noteq> CHR ''/'') (rev p))"

definition posix_dirname :: "string \<Rightarrow> string" where
  "posix_dirname p =
     (let head = take (length p - length (posix_basename p)) p in
      if list_ex (\<lambda>c. c \<noteq> CHR ''/'') head
      then rev (dropWhile (\<lambda>c. c = CHR ''/'') (rev head))
      else head)"

text \<open>A configuration with a header row, the bcp strategy and a trusted connection.\<close>

definition cfg0 :: config where
  "cfg0 = \<lparr>db_type = ''mssql'', dbServer = ''srv'', dbName = ''db'', uid = [], pwd = ''pw'',
           field_delimiter = '','', the_file_prefix = ''data'', file_suffix = ''_x'',
           file_extensions = ''csv,zip'', file_type = ''csv'', file_has_header = True,
           archive_path = ''arc'', bcp_end_of_row = [bslash, CHR ''n''], bcp_row_start = ''2'',
           bcp_batch_commit_size = ''1000'', bcp_import_bool = True,
           bulkInsert_import_bool = False, pandas_import_bool = False\<rparr>"

text \<open>
  A world in which no call raises. Floats are integers here, and \<open>float()\<close> reads a
  string of digits. The texts of a column are those pandas gives a column of whole
  numbers and missing values: a number in decimal, a missing value as \<open><NA>\<close>.
\<close>

fun digits_value :: "string \<Rightarrow> int option" where
  "digits_value [] = None"
| "digits_value s =
     (if list_all (\<lambda>c. 48 \<le> (of_char c :: nat) \<and> (of_char c :: nat) \<le> 57) s
      then Some (foldl (\<lambda>n c. 10 * n + (int (of_char c) - 48)) 0 s)
      else None)"

definition str_int :: "int \<Rightarrow> string" where
  "str_int i = (if i < 0 then ''-'' @ str_nat (nat (- i)) else str_nat (nat i))"

fun cell_text :: "int pyval \<Rightarrow> string" where
  "cell_text (Str s) = s"
| "cell_text (Num i) = str_int i"
| "cell_text NoneVal = ''<NA>''"

definition quiet :: "int world" where
  "quiet = \<lparr>raises = (\<lambda>h e. None),
            fetched = (\<lambda>h. [''RecId'', ''id'', ''amount'']),
            returncode = (\<lambda>h cmd. 0),
            csv_first_row = (\<lambda>h p. [''id'', ''amount'']),
            csv_frame = (\<lambda>h p. ([''id'', ''amount''], [[Num 1, Num 2], [Str ''(5)'', Str ''-'']])),
            json_data = (\<lambda>h p. JArray [JDict [(''id'', ''1'')]]),
            walk = (\<lambda>h d. [(d, [''a_x.csv'', ''b_x.csv'', ''c_x.csv''])]),
            path_exists = (\<lambda>h p. False),
            is_zipfile = (\<lambda>h p. False),
            listdir = (\<lambda>h d. [''data1.txt'', ''old_x.csv'', ''other.bin'']),
            s3_contents = (\<lambda>h b f. Some [''in/'', ''in/data.csv'', ''in/data.cs'', ''in/x.csv'']),
            pyfloat = digits_value,
            fneg = uminus,
            column_text = map cell_text,
            no_scheme = (\<lambda>url. \<not> contains ''://'' url),
            os_seps = ''/'',
            os_join = posix_join,
            os_dirname = posix_dirname,
            os_basename = posix_basename\<rparr>"

definition s0 :: st where
  "s0 = \<lparr>drop_table_if_exists = True, trace = []\<rparr>"







definition world_move_fails :: "int world" where
  "world_move_fails =
     quiet\<lparr>raises := (\<lambda>h e. case e of Move src dst \<Rightarrow> Some ''denied'' | _ \<Rightarrow> None)\<rparr>"



definition world_ssh_down :: "int world" where
  "world_ssh_down =
     quiet\<lparr>raises := (\<lambda>h e. case e of SshConnect a b c d \<Rightarrow> Some ''refused'' | _ \<Rightarrow> None)\<rparr>"

definition world_bcp_exit1 :: "int world" where
  "world_bcp_exit1 = quiet\<lparr>returncode := (\<lambda>h cmd. 1)\<rparr>"


section \<open>Reading the history\<close>

text \<open>The events a computation added to the history, from state \<open>s\<close> to state \<open>s'\<close>.\<close>

definition new_events :: "st \<Rightarrow> st \<Rightarrow> event list" where
  "new_events s s' = drop (length (trace s)) (trace s')"







text \<open>
  Instruments of the proofs below. \<open>grows P n s s'\<close>: from \<open>s\<close> to \<open>s'\<close> the history was only
  extended, \<open>drop_table_if_exists\<close> was not assigned, and where \<open>n\<close> is zero no new event
  satisfies \<open>P\<close>. \<open>tame P\<close>: only schema statements and "Processed" log lines satisfy \<open>P\<close>;
  \<open>wt P\<close> is zero where no statement satisfies it.
\<close>

definition grows :: "(event \<Rightarrow> bool) \<Rightarrow> nat \<Rightarrow> st \<Rightarrow> st \<Rightarrow> bool" where
  "grows P n s s' =
     (drop_table_if_exists s' = drop_table_if_exists s \<and> prefix (trace s) (trace s') \<and>
      (n = 0 \<longrightarrow> filter P (new_events s s') = []))"











section \<open>How the history grows\<close>

lemma new_events_self [simp]: "new_events s s = []"
  by (simp add: new_events_def)

lemma new_events_emit [simp]: "new_events s (emit e s) = [e]"
  by (simp add: new_events_def emit_def)







lemma grows_any: "grows P m s s' \<Longrightarrow> 0 < n \<Longrightarrow> grows P n s s'"
  by (auto simp: grows_def)


lemma grows_emit1: "grows P 1 s (emit e s)"
  by (simp add: grows_def) (simp add: emit_def)

lemma snd_call: "snd (call w e s) = emit e s"
  by (simp add: call_def split: option.splits)


lemma grows_call1: "grows P 1 s (snd (call w e s))"
  unfolding snd_call by (rule grows_emit1)
















section \<open>What the handlers add to the history\<close>































lemma flag_emit [simp]: "drop_table_if_exists (emit e s) = drop_table_if_exists s"
  by (simp add: emit_def)



section \<open>The loop of process\_file keeps its invariant\<close>





























section \<open>connect\_to\_database and convert\_values\<close>

lemma startswith_append [simp]: "startswith (a @ b) a"
  by (simp add: startswith_def)

lemma endswith_append [simp]: "endswith (a @ b) b"
  by (simp add: endswith_def)

lemma endswith_append2: "endswith (a @ b @ c) c"
  using endswith_append[of "a @ b" c] by simp

text \<open>
  Claim C10. \<open>connect_to_database\<close> raises ValueError exactly when the configured
  database type is not \<open>mssql\<close>, and then leaves the state as it was: no connection is
  opened. For \<open>mssql\<close> it makes one call to the driver and returns the connection unless
  the driver raises; the connection string names the server and the database, ends with
  the user id and password when both are non-empty, and asks for a trusted connection
  otherwise.
\<close>

theorem connect_to_database_spec:
  "((\<exists>m. fst (connect_to_database w cfg s) = Inl (ValueError m)) \<longleftrightarrow> db_type cfg \<noteq> ''mssql'') \<and>
   (db_type cfg \<noteq> ''mssql'' \<longrightarrow> snd (connect_to_database w cfg s) = s) \<and>
   (db_type cfg = ''mssql'' \<longrightarrow>
      new_events s (snd (connect_to_database w cfg s)) = [Connect (conn_str cfg)] \<and>
      (raises w (trace s) (Connect (conn_str cfg)) = None \<longrightarrow>
         fst (connect_to_database w cfg s) = Inr (length (trace s))) \<and>
      startswith (conn_str cfg)
        (''DRIVER={SQL Server};SERVER='' @ dbServer cfg @ '';DATABASE='' @ dbName cfg @ '';'') \<and>
      (uid cfg \<noteq> [] \<and> pwd cfg \<noteq> [] \<longrightarrow>
         endswith (conn_str cfg) (''UID='' @ uid cfg @ '';PWD='' @ pwd cfg)) \<and>
      (uid cfg = [] \<or> pwd cfg = [] \<longrightarrow>
         endswith (conn_str cfg) ''Trusted_Connection=yes;''))"
proof -
  have str1: "startswith (conn_str cfg)
        (''DRIVER={SQL Server};SERVER='' @ dbServer cfg @ '';DATABASE='' @ dbName cfg @ '';'')"
    unfolding conn_str_def
    using startswith_append[of "''DRIVER={SQL Server};SERVER='' @ dbServer cfg @ '';DATABASE='' @ dbName cfg @ '';''"]
    by simp
  have str2: "uid cfg \<noteq> [] \<and> pwd cfg \<noteq> [] \<longrightarrow>
         endswith (conn_str cfg) (''UID='' @ uid cfg @ '';PWD='' @ pwd cfg)"
    unfolding conn_str_def
    using endswith_append[of "''DRIVER={SQL Server};SERVER='' @ dbServer cfg @ '';DATABASE='' @ dbName cfg @ '';''"
        "''UID='' @ uid cfg @ '';PWD='' @ pwd cfg"]
    by simp
  have str3: "uid cfg = [] \<or> pwd cfg = [] \<longrightarrow>
         endswith (conn_str cfg) ''Trusted_Connection=yes;''"
    unfolding conn_str_def
    using endswith_append[of "''DRIVER={SQL Server};SERVER='' @ dbServer cfg @ '';DATABASE='' @ dbName cfg @ '';''"
        "''Trusted_Connection=yes;''"]
    by auto
  have run: "db_type cfg = ''mssql'' \<Longrightarrow>
      new_events s (snd (connect_to_database w cfg s)) = [Connect (conn_str cfg)] \<and>
      (raises w (trace s) (Connect (conn_str cfg)) = None \<longrightarrow>
         fst (connect_to_database w cfg s) = Inr (length (trace s))) \<and>
      (\<forall>m. fst (connect_to_database w cfg s) \<noteq> Inl (ValueError m))"
    by (auto simp: connect_to_database_def bnd_def call_def ret_def split: option.splits)
  have other: "db_type cfg \<noteq> ''mssql'' \<Longrightarrow>
      connect_to_database w cfg s = (Inl (ValueError ''Unsupported database type''), s)"
    by (simp add: connect_to_database_def)
  show ?thesis using str1 str2 str3 run other by (cases "db_type cfg = ''mssql''") auto
qed


theorem connect_to_database_spec_witness:
  "db_type cfg0 = ''mssql'' \<and>
   new_events s0 (snd (connect_to_database quiet cfg0 s0)) =
     [Connect ''DRIVER={SQL Server};SERVER=srv;DATABASE=db;Trusted_Connection=yes;''] \<and>
   fst (connect_to_database quiet cfg0 s0) = Inr 0 \<and>
   endswith (conn_str cfg0) ''Trusted_Connection=yes;'' \<and>
   endswith (conn_str (cfg0\<lparr>uid := ''sa''\<rparr>)) ''UID=sa;PWD=pw'' \<and>
   snd (connect_to_database quiet (cfg0\<lparr>db_type := ''oracle''\<rparr>) s0) = s0"
  using connect_to_database_spec[of quiet cfg0 s0]
    connect_to_database_spec[of quiet "cfg0\<lparr>uid := ''sa''\<rparr>" s0]
    connect_to_database_spec[of quiet "cfg0\<lparr>db_type := ''oracle''\<rparr>" s0]
  by (simp add: cfg0_def quiet_def s0_def conn_str_def)













section \<open>Four executions\<close>

text \<open>
  Claim C6. The object-store filter tests the extension with \<open>in\<close> against the
  configured string \<open>csv,zip\<close>, a substring test: the file \<open>data.cs\<close>, whose extension
  \<open>cs\<close> is none of the configured extensions, is selected and downloaded. The SFTP filter
  splits the same string at the commas first.
\<close>

theorem download_from_s3_takes_other_extension:
  "s3_selected quiet cfg0 ''data.cs'' \<and>
   ''cs'' \<notin> set (extensionList cfg0) \<and>
   new_events s0 (snd (download_from_s3 quiet cfg0 ''bk'' ''in/'' ''dl'' s0)) =
     [S3List ''bk'' ''in/'',
      S3Download ''bk'' ''in/data.csv'' ''dl/data.csv'',
      Print ''Copied s3://bkin/data.csv to dl/data.csv'',
      S3Download ''bk'' ''in/data.cs'' ''dl/data.cs'',
      Print ''Copied s3://bkin/data.cs to dl/data.cs'']"
  by code_simp

text \<open>
  Claim C8. With the bcp utility exiting with code 1, \<open>subprocess.run\<close> returns that code,
  \<open>bcp_import\<close> drops it, prints that the import succeeded and returns: nothing reports a
  failure.
\<close>

theorem bcp_import_exit_code_unreported:
  "fst (subprocess_run world_bcp_exit1 (bcp_command cfg0 ''f.csv'' ''T'') s0) = Inr 1 \<and>
   fst (bcp_import world_bcp_exit1 cfg0 ''f.csv'' ''T'' s0) = Inr () \<and>
   new_events s0 (snd (bcp_import world_bcp_exit1 cfg0 ''f.csv'' ''T'' s0)) =
     [Run (bcp_command cfg0 ''f.csv'' ''T''), Print ''BCP import succeeded'']"
  by code_simp

text \<open>
  Claim C9. When \<open>ssh.connect\<close> raises, the handler prints the failure, and the \<open>finally\<close>
  block raises UnboundLocalError at \<open>sftp.close()\<close>: \<open>ssh.close()\<close> is never called, and
  the exception leaves \<open>download_from_sftp\<close>.
\<close>

theorem download_from_sftp_leaves_ssh_open:
  "download_from_sftp world_ssh_down cfg0 ''h'' ''22'' ''u'' ''p'' ''r'' ''dl'' s0 =
     (Inl (UnboundLocalError ''sftp''),
      \<lparr>drop_table_if_exists = True,
       trace = [SshConnect ''h'' ''22'' ''u'' ''p'', Print ''Failed to download files: refused'']\<rparr>) \<and>
   SshClose \<notin> set (trace (snd (download_from_sftp world_ssh_down cfg0
                                   ''h'' ''22'' ''u'' ''p'' ''r'' ''dl'' s0)))"
  by code_simp

text \<open>
  Claim C1. \<open>bulkInsert_import\<close> sends \<open>BULK INSERT T\<close>: its statement names the table
  and nowhere the view \<open>T_View\<close>, which \<open>bcp_import\<close> and \<open>pandas_import\<close> write to.
\<close>

theorem bulkInsert_import_writes_table:
  "new_events s0 (snd (bulkInsert_import quiet cfg0 ''f.csv'' ''T'' s0)) =
     [Connect (conn_str cfg0), Cursor 0, Execute 0 (bulk_insert_sql cfg0 ''f.csv'' ''T''),
      Commit 0, Print ''BULK INSERT succeeded'', CursorClose 0, ConnClose 0] \<and>
   startswith (bulk_insert_sql cfg0 ''f.csv'' ''T'') ([nl] @ ''        BULK INSERT T'' @ [nl]) \<and>
   \<not> contains ''T_View'' (bulk_insert_sql cfg0 ''f.csv'' ''T'') \<and>
   contains ''T_View'' (bcp_command cfg0 ''f.csv'' ''T'') \<and>
   contains ''T_View'' (insert_query ''T'' [''id'', ''amount''] 2)"
  by code_simp

section \<open>Archive expansion\<close>

lemma extract_steps:
  assumes "snd (splitext (os_seps w) p) = ''.zip''"
  shows "extract_file_if_compressed w cfg p s =
    (let X = ExtractAll p (os_dirname w p);
         L = LogInfo (''Extracted '' @ p);
         dest = os_join w (archive_path cfg) (os_basename w p);
         M = Print (''Moving '' @ p @ '' to the archive folder '' @ archive_path cfg @ '' ...'');
         s1 = emit L (emit X s)
     in case raises w (trace s) X of
          Some m \<Rightarrow> (Inl (ExternalError m), emit X s)
        | None \<Rightarrow>
            if path_exists w (trace s1) dest then
              (case raises w (trace s1) (Remove dest) of
                 Some m \<Rightarrow> (Inl (ExternalError m), emit (Remove dest) s1)
               | None \<Rightarrow> call w (Move p (archive_path cfg)) (emit M (emit (Remove dest) s1)))
            else call w (Move p (archive_path cfg)) (emit M s1))"
  unfolding extract_file_if_compressed_def if_P[OF assms]
  by (simp add: bnd_def call_def say_def Let_def split: option.splits)

lemma enter_directory_zip:
  assumes "endswith p ''.zip''"
  shows "enter_directory w cfg p s =
     (case extract_file_if_compressed w cfg p
             (emit (Print (''Extracting file: '' @ p))
                (emit (Print (''Processing file: '' @ p)) s)) of
        (Inl e, s3) \<Rightarrow> (Inl e, s3)
      | (Inr _, s3) \<Rightarrow>
          (Inr (), emit (Print (''Processing files in directory: '' @ os_dirname w p)) s3))"
  unfolding enter_directory_def if_P[OF assms]
  by (simp add: bnd_def say_def split: prod.splits sum.splits)


lemma process_file_enter_fails:
  assumes "enter_directory w cfg p s = (Inl e, s3)"
  shows "process_file w cfg p archive t s =
           (Inr (), emit (LogError (''Error in process_file method: '' @ exn_str e)) s3)"
  unfolding process_file_def try_except_def using assms by (simp add: bnd_def say_def)


lemma process_file_extract_fails:
  assumes "endswith p ''.zip''"
    and "extract_file_if_compressed w cfg p
           (emit (Print (''Extracting file: '' @ p))
              (emit (Print (''Processing file: '' @ p)) s)) = (Inl e, s3)"
  shows "process_file w cfg p archive t s =
           (Inr (), emit (LogError (''Error in process_file method: '' @ exn_str e)) s3)"
proof (rule process_file_enter_fails)
  show "enter_directory w cfg p s = (Inl e, s3)"
    unfolding enter_directory_zip[OF assms(1)] assms(2) by simp
qed


text \<open>
  Claim C7, as amended. For a path whose extension, as \<open>os.path.splitext\<close> gives it, is
  \<open>.zip\<close>, \<open>extract_file_if_compressed\<close> extracts into the file's own directory, deletes
  the same-named file in the archive location if there is one, and moves the container
  there, in this order. Nothing is caught: the first of the three that fails ends the
  function with its exception, and what would follow is not done; the function returns
  only where none of them fails. Whichever of them failed, \<open>process_file\<close> then only logs
  the exception and returns, without looking at any file of the directory.
\<close>

theorem extract_file_if_compressed_spec:
  assumes "snd (splitext (os_seps w) p) = ''.zip''"
  shows
    "(let X = ExtractAll p (os_dirname w p);
          h1 = trace s @ [X, LogInfo (''Extracted '' @ p)];
          dest = os_join w (archive_path cfg) (os_basename w p);
          pre = (if path_exists w h1 dest then [Remove dest] else []);
          h2 = h1 @ pre @
               [Print (''Moving '' @ p @ '' to the archive folder '' @ archive_path cfg @ '' ...'')];
          V = Move p (archive_path cfg)
      in (raises w (trace s) X = Some m \<longrightarrow>
            extract_file_if_compressed w cfg p s =
              (Inl (ExternalError m), s\<lparr>trace := trace s @ [X]\<rparr>)) \<and>
         (raises w (trace s) X = None \<and> path_exists w h1 dest \<and>
          raises w h1 (Remove dest) = Some m \<longrightarrow>
            extract_file_if_compressed w cfg p s =
              (Inl (ExternalError m), s\<lparr>trace := h1 @ [Remove dest]\<rparr>)) \<and>
         (raises w (trace s) X = None \<and>
          (path_exists w h1 dest \<longrightarrow> raises w h1 (Remove dest) = None) \<and>
          raises w h2 V = Some m \<longrightarrow>
            extract_file_if_compressed w cfg p s =
              (Inl (ExternalError m), s\<lparr>trace := h2 @ [V]\<rparr>)) \<and>
         (raises w (trace s) X = None \<and>
          (path_exists w h1 dest \<longrightarrow> raises w h1 (Remove dest) = None) \<and>
          raises w h2 V = None \<longrightarrow>
            extract_file_if_compressed w cfg p s = (Inr (), s\<lparr>trace := h2 @ [V]\<rparr>))) \<and>
     (endswith p ''.zip'' \<and>
      extract_file_if_compressed w cfg p
        (emit (Print (''Extracting file: '' @ p))
           (emit (Print (''Processing file: '' @ p)) s')) = (Inl e, s3) \<longrightarrow>
        process_file w cfg p archive t s' =
          (Inr (), emit (LogError (''Error in process_file method: '' @ exn_str e)) s3))"
proof -
  have pf: "endswith p ''.zip'' \<and>
      extract_file_if_compressed w cfg p
        (emit (Print (''Extracting file: '' @ p))
           (emit (Print (''Processing file: '' @ p)) s')) = (Inl e, s3) \<longrightarrow>
        process_file w cfg p archive t s' =
          (Inr (), emit (LogError (''Error in process_file method: '' @ exn_str e)) s3)"
    using process_file_extract_fails[of p w cfg s' e s3 archive t] by blast
  have eN: "exn_of (ExtractAll p (os_dirname w p)) m = ExternalError m"
    "\<And>d. exn_of (Remove d) m = ExternalError m"
    "exn_of (Move p (archive_path cfg)) m = ExternalError m" by simp_all
  have run: "(let X = ExtractAll p (os_dirname w p);
          h1 = trace s @ [X, LogInfo (''Extracted '' @ p)];
          dest = os_join w (archive_path cfg) (os_basename w p);
          pre = (if path_exists w h1 dest then [Remove dest] else []);
          h2 = h1 @ pre @
               [Print (''Moving '' @ p @ '' to the archive folder '' @ archive_path cfg @ '' ...'')];
          V = Move p (archive_path cfg)
      in (raises w (trace s) X = Some m \<longrightarrow>
            extract_file_if_compressed w cfg p s =
              (Inl (ExternalError m), s\<lparr>trace := trace s @ [X]\<rparr>)) \<and>
         (raises w (trace s) X = None \<and> path_exists w h1 dest \<and>
          raises w h1 (Remove dest) = Some m \<longrightarrow>
            extract_file_if_compressed w cfg p s =
              (Inl (ExternalError m), s\<lparr>trace := h1 @ [Remove dest]\<rparr>)) \<and>
         (raises w (trace s) X = None \<and>
          (path_exists w h1 dest \<longrightarrow> raises w h1 (Remove dest) = None) \<and>
          raises w h2 V = Some m \<longrightarrow>
            extract_file_if_compressed w cfg p s =
              (Inl (ExternalError m), s\<lparr>trace := h2 @ [V]\<rparr>)) \<and>
         (raises w (trace s) X = None \<and>
          (path_exists w h1 dest \<longrightarrow> raises w h1 (Remove dest) = None) \<and>
          raises w h2 V = None \<longrightarrow>
            extract_file_if_compressed w cfg p s = (Inr (), s\<lparr>trace := h2 @ [V]\<rparr>)))"
    unfolding extract_steps[OF assms] Let_def
    by (simp add: call_def emit_def)
  from run pf show ?thesis by (rule conjI)
qed

theorem extract_file_if_compressed_spec_witness:
  "snd (splitext (os_seps quiet) ''dl/f.zip'') = ''.zip'' \<and>
   extract_file_if_compressed quiet cfg0 ''dl/f.zip'' s0 =
     (Inr (),
      \<lparr>drop_table_if_exists = True,
       trace = [ExtractAll ''dl/f.zip'' ''dl'', LogInfo ''Extracted dl/f.zip'',
                Print ''Moving dl/f.zip to the archive folder arc ...'',
                Move ''dl/f.zip'' ''arc'']\<rparr>) \<and>
   raises world_move_fails
     [ExtractAll ''dl/f.zip'' ''dl'', LogInfo ''Extracted dl/f.zip'',
      Print ''Moving dl/f.zip to the archive folder arc ...'']
     (Move ''dl/f.zip'' ''arc'') = Some ''denied'' \<and>
   extract_file_if_compressed world_move_fails cfg0 ''dl/f.zip'' s0 =
     (Inl (ExternalError ''denied''),
      \<lparr>drop_table_if_exists = True,
       trace = [ExtractAll ''dl/f.zip'' ''dl'', LogInfo ''Extracted dl/f.zip'',
                Print ''Moving dl/f.zip to the archive folder arc ...'',
                Move ''dl/f.zip'' ''arc'']\<rparr>) \<and>
   endswith ''dl/f.zip'' ''.zip'' \<and>
   process_file world_move_fails cfg0 ''dl/f.zip'' ''arc'' ''T'' s0 =
     (Inr (),
      \<lparr>drop_table_if_exists = True,
       trace = [Print ''Processing file: dl/f.zip'', Print ''Extracting file: dl/f.zip'',
                ExtractAll ''dl/f.zip'' ''dl'', LogInfo ''Extracted dl/f.zip'',
                Print ''Moving dl/f.zip to the archive folder arc ...'',
                Move ''dl/f.zip'' ''arc'',
                LogError ''Error in process_file method: denied'']\<rparr>)"
proof -
  have z: "snd (splitext (os_seps quiet) ''dl/f.zip'') = ''.zip''" by code_simp
  have z': "snd (splitext (os_seps world_move_fails) ''dl/f.zip'') = ''.zip''" by code_simp
  have e: "endswith ''dl/f.zip'' ''.zip''" by code_simp
  have r: "raises world_move_fails
     [ExtractAll ''dl/f.zip'' ''dl'', LogInfo ''Extracted dl/f.zip'',
      Print ''Moving dl/f.zip to the archive folder arc ...'']
     (Move ''dl/f.zip'' ''arc'') = Some ''denied''" by code_simp
  note A = extract_file_if_compressed_spec[OF z, where cfg=cfg0 and s=s0, unfolded Let_def,
      THEN conjunct1, THEN conjunct2, THEN conjunct2, THEN conjunct2]
  note B = extract_file_if_compressed_spec[OF z', where cfg=cfg0 and s=s0 and m="''denied''",
      unfolded Let_def, THEN conjunct1, THEN conjunct2, THEN conjunct2, THEN conjunct1]
  have q: "\<And>h e. raises quiet h e = None" "\<And>h d. path_exists quiet h d = False"
    "\<And>h d. path_exists world_move_fails h d = False"
    "\<And>h a b. raises world_move_fails h (ExtractAll a b) = None"
    "\<And>h a b. raises world_move_fails h (Move a b) = Some ''denied''"
    by (simp_all add: quiet_def world_move_fails_def)
  have o: "os_dirname quiet ''dl/f.zip'' = ''dl''"
    "os_dirname world_move_fails ''dl/f.zip'' = ''dl''" by code_simp+
  have c: "archive_path cfg0 = ''arc''" by (simp add: cfg0_def)
  have s: "trace s0 = []"
    "\<And>x. s0\<lparr>trace := x\<rparr> = \<lparr>drop_table_if_exists = True, trace = x\<rparr>"
    by (simp_all add: s0_def)
  have a: "extract_file_if_compressed quiet cfg0 ''dl/f.zip'' s0 =
     (Inr (),
      \<lparr>drop_table_if_exists = True,
       trace = [ExtractAll ''dl/f.zip'' ''dl'', LogInfo ''Extracted dl/f.zip'',
                Print ''Moving dl/f.zip to the archive folder arc ...'',
                Move ''dl/f.zip'' ''arc'']\<rparr>)"
    using A by (simp add: q o c s)
  have b: "extract_file_if_compressed world_move_fails cfg0 ''dl/f.zip'' s0 =
     (Inl (ExternalError ''denied''),
      \<lparr>drop_table_if_exists = True,
       trace = [ExtractAll ''dl/f.zip'' ''dl'', LogInfo ''Extracted dl/f.zip'',
                Print ''Moving dl/f.zip to the archive folder arc ...'',
                Move ''dl/f.zip'' ''arc'']\<rparr>)"
    using B by (simp add: q o c s)
  have x: "extract_file_if_compressed world_move_fails cfg0 ''dl/f.zip''
             (emit (Print (''Extracting file: '' @ ''dl/f.zip''))
                (emit (Print (''Processing file: '' @ ''dl/f.zip'')) s0)) =
           (Inl (ExternalError ''denied''),
            \<lparr>drop_table_if_exists = True,
             trace = [Print ''Processing file: dl/f.zip'', Print ''Extracting file: dl/f.zip'',
                ExtractAll ''dl/f.zip'' ''dl'', LogInfo ''Extracted dl/f.zip'',
                Print ''Moving dl/f.zip to the archive folder arc ...'',
                Move ''dl/f.zip'' ''arc'']\<rparr>)"
    by code_simp
  have c0: "process_file world_move_fails cfg0 ''dl/f.zip'' ''arc'' ''T'' s0 =
     (Inr (), emit (LogError (''Error in process_file method: '' @
                              exn_str (ExternalError ''denied'')))
        \<lparr>drop_table_if_exists = True,
             trace = [Print ''Processing file: dl/f.zip'', Print ''Extracting file: dl/f.zip'',
                ExtractAll ''dl/f.zip'' ''dl'', LogInfo ''Extracted dl/f.zip'',
                Print ''Moving dl/f.zip to the archive folder arc ...'',
                Move ''dl/f.zip'' ''arc'']\<rparr>)"
    by (rule extract_file_if_compressed_spec[OF z', THEN conjunct2, rule_format,
          OF conjI[OF e x]])
  have p: "process_file world_move_fails cfg0 ''dl/f.zip'' ''arc'' ''T'' s0 =
     (Inr (),
      \<lparr>drop_table_if_exists = True,
       trace = [Print ''Processing file: dl/f.zip'', Print ''Extracting file: dl/f.zip'',
                ExtractAll ''dl/f.zip'' ''dl'', LogInfo ''Extracted dl/f.zip'',
                Print ''Moving dl/f.zip to the archive folder arc ...'',
                Move ''dl/f.zip'' ''arc'',
                LogError ''Error in process_file method: denied'']\<rparr>)"
    unfolding c0 by (simp add: emit_def)
  from z a r b e p show ?thesis by (intro conjI)
qed

text \<open>
  The claim as stated fails where the final move fails: the extraction has succeeded and
  the directory holds three candidate files, yet \<open>process_file\<close> logs the error and ends,
  and none of them is looked at.
\<close>

theorem move_failure_counterexample:
  "walk world_move_fails [] ''dl'' = [(''dl'', [''a_x.csv'', ''b_x.csv'', ''c_x.csv''])] \<and>
   process_file world_move_fails cfg0 ''dl/f.zip'' ''arc'' ''T'' s0 =
     (Inr (),
      \<lparr>drop_table_if_exists = True,
       trace = [Print ''Processing file: dl/f.zip'', Print ''Extracting file: dl/f.zip'',
                ExtractAll ''dl/f.zip'' ''dl'', LogInfo ''Extracted dl/f.zip'',
                Print ''Moving dl/f.zip to the archive folder arc ...'',
                Move ''dl/f.zip'' ''arc'',
                LogError ''Error in process_file method: denied'']\<rparr>)"
proof -
  have w: "walk world_move_fails [] ''dl'' = [(''dl'', [''a_x.csv'', ''b_x.csv'', ''c_x.csv''])]"
    by code_simp
  have z: "endswith ''dl/f.zip'' ''.zip''" by code_simp
  have x: "extract_file_if_compressed world_move_fails cfg0 ''dl/f.zip''
             (emit (Print (''Extracting file: '' @ ''dl/f.zip''))
                (emit (Print (''Processing file: '' @ ''dl/f.zip'')) s0)) =
           (Inl (ExternalError ''denied''),
            \<lparr>drop_table_if_exists = True,
             trace = [Print ''Processing file: dl/f.zip'', Print ''Extracting file: dl/f.zip'',
                ExtractAll ''dl/f.zip'' ''dl'', LogInfo ''Extracted dl/f.zip'',
                Print ''Moving dl/f.zip to the archive folder arc ...'',
                Move ''dl/f.zip'' ''arc'']\<rparr>)"
    by code_simp
  have p: "process_file world_move_fails cfg0 ''dl/f.zip'' ''arc'' ''T'' s0 =
     (Inr (),
      \<lparr>drop_table_if_exists = True,
       trace = [Print ''Processing file: dl/f.zip'', Print ''Extracting file: dl/f.zip'',
                ExtractAll ''dl/f.zip'' ''dl'', LogInfo ''Extracted dl/f.zip'',
                Print ''Moving dl/f.zip to the archive folder arc ...'',
                Move ''dl/f.zip'' ''arc'',
                LogError ''Error in process_file method: denied'']\<rparr>)"
    unfolding process_file_extract_fails[OF z x] by (simp add: emit_def)
  from w p show ?thesis by (rule conjI)
qed

section \<open>The table is created before the first file is processed\<close>







section \<open>One file's failure does not stop the batch\<close>

















section \<open>A failing create or replace\<close>









end
